theory Spec2Isabelle
  imports Complex_Main "HOL-Library.Log_Nat" "HOL-Library.Code_Target_Nat"
begin

section \<open>Caption burning service: \<open>services/caption_video_one.py\<close>\<close>

text \<open>
  A shallow embedding of the caption-to-subtitle translation of
  \<open>src/services/caption_video_one.py\<close>: the style line, the timecode
  arithmetic, the one-word-at-a-time expansion, the SRT block loop, the
  filter string and the job function \<open>process_captioning\<close>.

  Modelling conventions.
  \<^item> A Python \<open>str\<close> is a \<open>string\<close>; a character is a code point below 256.
  \<^item> A Python \<open>float\<close> is an IEEE binary64 number: a finite one is the
    rational it denotes, and every operation rounds its exact result to the
    nearest such number, a tie to the even one (\<open>round_to_double\<close>); beyond
    the range it gives \<open>inf\<close>. The sign of a zero is not kept: every float
    the module prints goes through \<open>int\<close> or \<open>%\<close> first, which drop it.
  \<^item> A raised exception is the \<open>Inl\<close> of a sum; the collaborators the module
    imports (\<open>download_file\<close>, \<open>requests.get\<close>, \<open>ffmpeg\<close>, \<open>upload_to_gcs\<close>,
    the font table read from disk) are fields of a record \<open>world\<close>.
  \<^item> What the job does to the outside is a list of events, in program order:
    each call of a collaborator, each file written or removed (the attempt,
    whether or not it succeeds), each warning and error logged. Calls of
    \<open>logger.info\<close> are not events.
\<close>

subsection \<open>Python values and string primitives\<close>

datatype py_error =
    ZeroDivisionError
  | ValueError
  | IndexError
  | OverflowError
  | HTTPError
  | FFmpegError "string option"
  | OtherError string

text \<open>An option value as it arrives in the request body (a JSON scalar).\<close>

datatype pyval = PyStr string | PyInt int | PyBool bool | PyNone

datatype pyfloat = Finite rat | PosInf | NegInf | NaN

definition py_isspace :: "char \<Rightarrow> bool" where
  "py_isspace c =
     ((of_char c :: nat) \<in> set [9, 10, 11, 12, 13, 28, 29, 30, 31, 32, 133, 160])"

definition is_digit :: "char \<Rightarrow> bool" where
  "is_digit c = (48 \<le> (of_char c :: nat) \<and> (of_char c :: nat) \<le> 57)"

definition digit_val :: "char \<Rightarrow> nat" where
  "digit_val c = of_char c - 48"

definition digit_char :: "nat \<Rightarrow> char" where
  "digit_char d = char_of (48 + d)"

text \<open>\<open>str.strip()\<close>: whitespace removed at both ends.\<close>

definition py_strip :: "string \<Rightarrow> string" where
  "py_strip s = rev (dropWhile py_isspace (rev (dropWhile py_isspace s)))"

text \<open>\<open>str.split()\<close> with no argument: the maximal runs of non-whitespace.
  \<open>cur\<close> is the word being read, reversed.\<close>

fun split_ws_aux :: "string \<Rightarrow> string \<Rightarrow> string list" where
  "split_ws_aux cur [] = (if cur = [] then [] else [rev cur])"
| "split_ws_aux cur (c # cs) =
     (if py_isspace c
      then (if cur = [] then split_ws_aux [] cs else rev cur # split_ws_aux [] cs)
      else split_ws_aux (c # cur) cs)"

definition py_split_ws :: "string \<Rightarrow> string list" where
  "py_split_ws s = split_ws_aux [] s"

text \<open>\<open>str.split(sep)\<close> for a non-empty separator: left to right, no overlap.
  \<open>skip\<close> counts the characters of a separator still to be consumed, \<open>cur\<close> is
  the piece being read, reversed. (Python raises on an empty separator; the
  source only splits on the literals \<open>\n\n\<close>, \<open>\n\<close>, \<open> --> \<close> and \<open>:\<close>.)\<close>

fun split_sep_aux :: "string \<Rightarrow> nat \<Rightarrow> string \<Rightarrow> string \<Rightarrow> string list" where
  "split_sep_aux sep skip cur [] = [rev cur]"
| "split_sep_aux sep skip cur (c # cs) =
     (if 0 < skip then split_sep_aux sep (skip - 1) cur cs
      else if sep \<noteq> [] \<and> take (length sep) (c # cs) = sep
      then rev cur # split_sep_aux sep (length sep - 1) [] cs
      else split_sep_aux sep 0 (c # cur) cs)"

definition py_split_sep :: "string \<Rightarrow> string \<Rightarrow> string list" where
  "py_split_sep sep s = split_sep_aux sep 0 [] s"

text \<open>\<open>s.replace(old, new)\<close> for one-character \<open>old\<close> and \<open>new\<close>.\<close>

definition py_replace_char :: "char \<Rightarrow> char \<Rightarrow> string \<Rightarrow> string" where
  "py_replace_char old new s = map (\<lambda>c. if c = old then new else c) s"

fun py_join :: "string \<Rightarrow> string list \<Rightarrow> string" where
  "py_join sep [] = []"
| "py_join sep [x] = x"
| "py_join sep (x # y # ys) = x @ sep @ py_join sep (y # ys)"

definition py_startswith :: "string \<Rightarrow> string \<Rightarrow> bool" where
  "py_startswith s p = (take (length p) s = p)"

text \<open>\<open>os.path.join(a, b)\<close> on POSIX: an absolute \<open>b\<close> replaces \<open>a\<close>.\<close>

definition os_path_join :: "string \<Rightarrow> string \<Rightarrow> string" where
  "os_path_join a b =
     (if py_startswith b ''/'' then b
      else if a = [] \<or> last a = CHR ''/'' then a @ b
      else a @ ''/'' @ b)"

subsection \<open>Binary64 arithmetic\<close>

text \<open>Rounding to an integer, a tie to the even one.\<close>

definition round_half_even :: "rat \<Rightarrow> int" where
  "round_half_even q =
     (let f = \<lfloor>q\<rfloor>; d = q - of_int f
      in if d < 1 / 2 then f
         else if 1 / 2 < d then f + 1
         else if even f then f else f + 1)"

definition pow2 :: "int \<Rightarrow> rat" where
  "pow2 e = (if 0 \<le> e then 2 ^ nat e else 1 / 2 ^ nat (- e))"

text \<open>The exponent of a positive rational: \<open>2 ^ binade a \<le> a < 2 ^ (binade a + 1)\<close>.
  \<open>bitlen\<close> counts the binary digits of an integer, so the difference of the
  two counts is the exponent or one more.\<close>

definition binade :: "rat \<Rightarrow> int" where
  "binade a =
     (let (p, d) = quotient_of a;
          e0 = bitlen p - bitlen d
      in if a < pow2 e0 then e0 - 1 else e0)"

text \<open>\<open>quantum a\<close> is the spacing of the binary64 numbers around a positive \<open>a\<close>:
  52 fraction bits, and below \<open>2 ^ -1022\<close> the fixed spacing \<open>2 ^ -1074\<close> of the
  subnormal numbers. \<open>round_rat q\<close> is the multiple of that spacing nearest to
  \<open>q\<close>.\<close>

definition quantum :: "rat \<Rightarrow> rat" where
  "quantum a = pow2 (max (binade a) (- 1022) - 52)"

definition round_rat :: "rat \<Rightarrow> rat" where
  "round_rat q =
     (if q = 0 then 0
      else
        (let a = \<bar>q\<bar>;
             r = of_int (round_half_even (a / quantum a)) * quantum a
         in if 0 < q then r else - r))"

text \<open>\<open>2 ^ 1024\<close>, written out: a rounded value of this size is beyond the
  largest binary64 number, and the operation gives an infinity.\<close>

definition double_limit :: rat where
  "double_limit = 179769313486231590772930519078902473361797697894230657273430081157732675805500963132708477322407536021120113879871393357658789768814416622492847430639474124377767893424865485276302219601246094119453082952085005768838150682342462881473913110540827237163350510684586298239947245938479716304835356329624224137216"

definition round_to_double :: "rat \<Rightarrow> pyfloat" where
  "round_to_double q =
     (let r = round_rat q in
      if double_limit \<le> r then PosInf
      else if r \<le> - double_limit then NegInf
      else Finite r)"

text \<open>A rational that is a binary64 number.\<close>

definition is_double :: "rat \<Rightarrow> bool" where
  "is_double q = (round_to_double q = Finite q)"

definition fl_neg :: "pyfloat \<Rightarrow> pyfloat" where
  "fl_neg f =
     (case f of Finite q \<Rightarrow> Finite (- q) | PosInf \<Rightarrow> NegInf | NegInf \<Rightarrow> PosInf | NaN \<Rightarrow> NaN)"

text \<open>\<open>a + b\<close>, \<open>a - b\<close>, \<open>a * b\<close> on floats, and \<open>a / n\<close> for an integer
  \<open>n \<ge> 1\<close> (a length; an integer operand is converted to a float first,
  which is exact below \<open>2 ^ 53\<close>).\<close>

fun fl_add :: "pyfloat \<Rightarrow> pyfloat \<Rightarrow> pyfloat" where
  "fl_add (Finite x) (Finite y) = round_to_double (x + y)"
| "fl_add NaN b = NaN"
| "fl_add a NaN = NaN"
| "fl_add PosInf NegInf = NaN"
| "fl_add NegInf PosInf = NaN"
| "fl_add PosInf b = PosInf"
| "fl_add a PosInf = PosInf"
| "fl_add NegInf b = NegInf"
| "fl_add a NegInf = NegInf"

definition fl_sub :: "pyfloat \<Rightarrow> pyfloat \<Rightarrow> pyfloat" where
  "fl_sub a b = fl_add a (fl_neg b)"

definition signed_inf :: "bool \<Rightarrow> pyfloat" where
  "signed_inf positive = (if positive then PosInf else NegInf)"

fun fl_mul :: "pyfloat \<Rightarrow> pyfloat \<Rightarrow> pyfloat" where
  "fl_mul (Finite x) (Finite y) = round_to_double (x * y)"
| "fl_mul NaN b = NaN"
| "fl_mul a NaN = NaN"
| "fl_mul PosInf (Finite y) = (if y = 0 then NaN else signed_inf (0 < y))"
| "fl_mul NegInf (Finite y) = (if y = 0 then NaN else signed_inf (y < 0))"
| "fl_mul (Finite x) PosInf = (if x = 0 then NaN else signed_inf (0 < x))"
| "fl_mul (Finite x) NegInf = (if x = 0 then NaN else signed_inf (x < 0))"
| "fl_mul PosInf PosInf = PosInf"
| "fl_mul NegInf NegInf = PosInf"
| "fl_mul PosInf NegInf = NegInf"
| "fl_mul NegInf PosInf = NegInf"

definition fl_div_nat :: "pyfloat \<Rightarrow> nat \<Rightarrow> pyfloat" where
  "fl_div_nat a n =
     (case a of Finite x \<Rightarrow> round_to_double (x / of_nat n) | PosInf \<Rightarrow> PosInf
      | NegInf \<Rightarrow> NegInf | NaN \<Rightarrow> NaN)"

subsection \<open>Integers and floats as text\<close>

fun show_nat :: "nat \<Rightarrow> string" where
  "show_nat n = (if n < 10 then [digit_char n] else show_nat (n div 10) @ [digit_char (n mod 10)])"

definition show_int :: "int \<Rightarrow> string" where
  "show_int i = (if i < 0 then CHR ''-'' # show_nat (nat (- i)) else show_nat (nat i))"

definition nat_of_digits :: "string \<Rightarrow> nat" where
  "nat_of_digits ds = foldl (\<lambda>a c. 10 * a + digit_val c) 0 ds"

text \<open>\<open>str(v)\<close>, which is also what an f-string field with no format does.\<close>

fun py_str :: "pyval \<Rightarrow> string" where
  "py_str (PyStr s) = s"
| "py_str (PyInt i) = show_int i"
| "py_str (PyBool b) = (if b then ''True'' else ''False'')"
| "py_str PyNone = ''None''"

text \<open>Truth value of an option, as \<open>if v\<close> and \<open>v and ...\<close> test it.\<close>

fun py_truthy :: "pyval \<Rightarrow> bool" where
  "py_truthy (PyStr s) = (s \<noteq> [])"
| "py_truthy (PyInt i) = (i \<noteq> 0)"
| "py_truthy (PyBool b) = b"
| "py_truthy PyNone = False"

definition zfill :: "nat \<Rightarrow> string \<Rightarrow> string" where
  "zfill w s = replicate (w - length s) (CHR ''0'') @ s"

text \<open>The built-in \<open>float(s)\<close> on a string. The steps of CPython: strip
  whitespace; an underscore must stand between two digits and is then
  dropped; an optional sign; \<open>inf\<close>, \<open>infinity\<close> or \<open>nan\<close> in any case, or
  digits with an optional fraction and an optional exponent; nothing may be
  left over. The value is the binary64 number nearest to the decimal one.
  \<open>None\<close> is the \<open>ValueError\<close>.\<close>

definition py_lower :: "char \<Rightarrow> char" where
  "py_lower c =
     (if 65 \<le> (of_char c :: nat) \<and> (of_char c :: nat) \<le> 90
      then char_of ((of_char c :: nat) + 32) else c)"

fun underscores_ok :: "char \<Rightarrow> string \<Rightarrow> bool" where
  "underscores_ok prev [] = (prev \<noteq> CHR ''_'')"
| "underscores_ok prev (c # cs) =
     (if c = CHR ''_'' then is_digit prev \<and> underscores_ok c cs
      else if prev = CHR ''_'' then is_digit c \<and> underscores_ok c cs
      else underscores_ok c cs)"

definition pow10 :: "int \<Rightarrow> rat" where
  "pow10 e = (if 0 \<le> e then 10 ^ nat e else 1 / 10 ^ nat (- e))"

definition parse_exponent :: "string \<Rightarrow> int option" where
  "parse_exponent r =
     (case r of
        [] \<Rightarrow> Some 0
      | c # r1 \<Rightarrow>
          if c = CHR ''e'' \<or> c = CHR ''E'' then
            (let (neg, ds) =
                   (case r1 of
                      [] \<Rightarrow> (False, [])
                    | d # r2 \<Rightarrow>
                        if d = CHR ''-'' then (True, r2)
                        else if d = CHR ''+'' then (False, r2)
                        else (False, r1))
             in if ds \<noteq> [] \<and> list_all is_digit ds
                then Some (if neg then - int (nat_of_digits ds) else int (nat_of_digits ds))
                else None)
          else None)"

definition parse_unsigned :: "string \<Rightarrow> pyfloat option" where
  "parse_unsigned r =
     (if map py_lower r \<in> set [''inf'', ''infinity''] then Some PosInf
      else if map py_lower r = ''nan'' then Some NaN
      else
        (let ip = takeWhile is_digit r;
             r1 = dropWhile is_digit r;
             (fp, r2) =
               (case r1 of
                  [] \<Rightarrow> ([], [])
                | c # r' \<Rightarrow>
                    if c = CHR ''.'' then (takeWhile is_digit r', dropWhile is_digit r')
                    else ([], r1))
         in if ip = [] \<and> fp = [] then None
            else
              (case parse_exponent r2 of
                 None \<Rightarrow> None
               | Some e \<Rightarrow>
                   Some (round_to_double
                          ((of_nat (nat_of_digits ip)
                              + of_nat (nat_of_digits fp) / 10 ^ length fp) * pow10 e)))))"

definition py_float :: "string \<Rightarrow> pyfloat option" where
  "py_float s =
     (let t = py_strip s in
      if \<not> underscores_ok (CHR 0x00) t then None
      else
        (let u = filter (\<lambda>c. c \<noteq> CHR ''_'') t in
         case u of
           [] \<Rightarrow> None
         | c # r \<Rightarrow>
             if c = CHR ''-'' then map_option fl_neg (parse_unsigned r)
             else if c = CHR ''+'' then parse_unsigned r
             else parse_unsigned u))"

subsection \<open>Timecodes\<close>

text \<open>\<open>int(x)\<close>, which truncates towards zero, and \<open>x % m\<close> on floats for a
  positive \<open>m\<close>: the exact remainder of the truncated division, to which
  \<open>m\<close> is added (a float addition) when it is negative.\<close>

definition py_int :: "rat \<Rightarrow> int" where
  "py_int x = (if 0 \<le> x then \<lfloor>x\<rfloor> else \<lceil>x\<rceil>)"

definition py_fmod :: "rat \<Rightarrow> rat \<Rightarrow> rat" where
  "py_fmod x m =
     (let r = x - m * of_int (py_int (x / m))
      in if r < 0 then round_rat (r + m) else r)"

text \<open>The format specifications \<open>:02d\<close> and \<open>:05.2f\<close>. Float formatting rounds
  the exact value of the float to the nearest hundredth, a tie to the even
  digit.\<close>

definition fmt_02d :: "int \<Rightarrow> string" where
  "fmt_02d i =
     (if i < 0 then CHR ''-'' # zfill 1 (show_nat (nat (- i)))
      else zfill 2 (show_nat (nat i)))"

definition fmt_05_2f :: "rat \<Rightarrow> string" where
  "fmt_05_2f v =
     (let cs = nat (round_half_even (\<bar>v\<bar> * 100));
          body = show_nat (cs div 100) @ ''.'' @ zfill 2 (show_nat (cs mod 100))
      in if v < 0 then CHR ''-'' # zfill 4 body else zfill 5 body)"

text \<open>Lines 95 and 96, for a finite float \<open>t\<close>: the f-string
  \<open>{int(t/3600)}:{int((t%3600)/60):02d}:{t%60:05.2f}\<close>. The two divisions
  are float divisions and round.\<close>

definition format_timecode :: "rat \<Rightarrow> string" where
  "format_timecode t =
     show_int (py_int (round_rat (t / 3600))) @ '':''
       @ fmt_02d (py_int (round_rat (py_fmod t 3600 / 60))) @ '':''
       @ fmt_05_2f (py_fmod t 60)"

text \<open>The same for any float: \<open>int(inf)\<close> raises \<open>OverflowError\<close> and
  \<open>int(nan)\<close> raises \<open>ValueError\<close>.\<close>

definition format_float_timecode :: "pyfloat \<Rightarrow> py_error + string" where
  "format_float_timecode f =
     (case f of
        Finite t \<Rightarrow> Inr (format_timecode t)
      | NaN \<Rightarrow> Inl ValueError
      | _ \<Rightarrow> Inl OverflowError)"

text \<open>Lines 120 and 121:
  \<open>sum(float(x) * y for x, y in zip(tc.replace(',', '.').split(':')[::-1], [1, 60, 3600]))\<close>.
  \<open>zip\<close> stops at the shorter list; \<open>sum\<close> adds from the left, starting at 0,
  one float addition per term (CPython up to 3.11).\<close>

fun sum_seconds :: "pyfloat \<Rightarrow> (string \<times> rat) list \<Rightarrow> py_error + pyfloat" where
  "sum_seconds acc [] = Inr acc"
| "sum_seconds acc ((x, y) # rest) =
     (case py_float x of
        None \<Rightarrow> Inl ValueError
      | Some f \<Rightarrow> sum_seconds (fl_add acc (fl_mul f (Finite y))) rest)"

definition parse_timecode :: "string \<Rightarrow> py_error + pyfloat" where
  "parse_timecode tc =
     sum_seconds (Finite 0)
       (zip (rev (py_split_sep '':'' (py_replace_char (CHR '','') (CHR ''.'') tc)))
            [1, 60, 3600])"

subsection \<open>Options\<close>

type_synonym options = "string \<rightharpoonup> pyval"

text \<open>\<open>options.get(key, default)\<close>.\<close>

definition opt_get :: "options \<Rightarrow> string \<Rightarrow> pyval \<Rightarrow> pyval" where
  "opt_get options k d = (case options k of None \<Rightarrow> d | Some v \<Rightarrow> v)"

text \<open>Line 276: \<open>{item["option"]: item["value"] for item in options}\<close>; a
  later item overwrites an earlier one with the same key. An item is a pair
  here, so its two subscripts cannot fail.\<close>

fun collect_options :: "options \<Rightarrow> (string \<times> pyval) list \<Rightarrow> options" where
  "collect_options m [] = m"
| "collect_options m (item # items) = collect_options (m(fst item \<mapsto> snd item)) items"

definition convert_array_to_collection :: "(string \<times> pyval) list \<Rightarrow> options" where
  "convert_array_to_collection items = collect_options Map.empty items"

subsection \<open>The style line (lines 55 to 81)\<close>

text \<open>The dictionary \<open>style_options\<close> in insertion order, which is the order
  \<open>values()\<close> yields.\<close>

definition style_options :: "options \<Rightarrow> (string \<times> pyval) list" where
  "style_options options =
     [(''Name'', PyStr ''Default''),
      (''Fontname'', opt_get options ''font_name'' (PyStr ''Arial'')),
      (''Fontsize'', opt_get options ''font_size'' (PyInt 24)),
      (''PrimaryColour'', opt_get options ''primary_color'' (PyStr ''&H00FFFFFF'')),
      (''OutlineColour'', opt_get options ''outline_color'' (PyStr ''&H00000000'')),
      (''BackColour'', opt_get options ''back_color'' (PyStr ''&H00000000'')),
      (''Bold'', opt_get options ''bold'' (PyInt 0)),
      (''Italic'', opt_get options ''italic'' (PyInt 0)),
      (''Underline'', opt_get options ''underline'' (PyInt 0)),
      (''StrikeOut'', opt_get options ''strikeout'' (PyInt 0)),
      (''ScaleX'', PyInt 100),
      (''ScaleY'', PyInt 100),
      (''Spacing'', PyInt 0),
      (''Angle'', PyInt 0),
      (''BorderStyle'', PyInt 1),
      (''Outline'', opt_get options ''outline'' (PyInt 1)),
      (''Shadow'', opt_get options ''shadow'' (PyInt 0)),
      (''Alignment'', opt_get options ''alignment'' (PyInt 2)),
      (''MarginL'', opt_get options ''margin_l'' (PyInt 10)),
      (''MarginR'', opt_get options ''margin_r'' (PyInt 10)),
      (''MarginV'', opt_get options ''margin_v'' (PyInt 10)),
      (''Encoding'', opt_get options ''encoding'' (PyInt 1))]"

definition generate_style_line :: "options \<Rightarrow> string" where
  "generate_style_line options =
     ''Style: '' @ py_join '','' (map (\<lambda>kv. py_str (snd kv)) (style_options options))"

subsection \<open>One word at a time (lines 83 to 105)\<close>

text \<open>Lines 91 and 92: the window of word \<open>i\<close>, two float additions and a
  float product.\<close>

definition word_window :: "pyfloat \<Rightarrow> pyfloat \<Rightarrow> nat \<Rightarrow> pyfloat \<times> pyfloat" where
  "word_window start_time word_duration i =
     (let word_start = fl_add start_time (fl_mul (Finite (of_nat i)) word_duration);
          word_end = fl_add word_start word_duration
      in (word_start, word_end))"

text \<open>Line 100: the word between two colour overrides, \<open>{\c&H...&}\<close>.\<close>

definition highlight_word :: "pyval \<Rightarrow> pyval \<Rightarrow> string \<Rightarrow> string" where
  "highlight_word highlight_color regular_color word =
     [CHR ''{'', CHR 0x5C] @ ''c&H'' @ py_str highlight_color @ ''&}'' @ word
       @ [CHR ''{'', CHR 0x5C] @ ''c&H'' @ py_str regular_color @ ''&}''"

text \<open>One pass of the loop body, lines 91 to 103. The start is formatted
  before the end, so its error comes first.\<close>

definition dialogue_line ::
  "string list \<Rightarrow> pyfloat \<Rightarrow> pyfloat \<Rightarrow> pyval \<Rightarrow> pyval \<Rightarrow> nat \<Rightarrow> py_error + string" where
  "dialogue_line words start_time word_duration highlight_color regular_color i =
     (let (word_start, word_end) = word_window start_time word_duration i in
      case format_float_timecode word_start of
        Inl e \<Rightarrow> Inl e
      | Inr start_str \<Rightarrow>
          (case format_float_timecode word_end of
             Inl e \<Rightarrow> Inl e
           | Inr end_str \<Rightarrow>
               (let other_words =
                      words[i := highlight_word highlight_color regular_color (words ! i)];
                    line_text = py_join '' '' other_words
                in Inr (''Dialogue: 0,'' @ start_str @ '','' @ end_str
                          @ '',Default,,0,0,0,,'' @ line_text))))"

text \<open>The loop of lines 90 to 103 over the word indices.\<close>

fun caption_loop ::
  "string list \<Rightarrow> pyfloat \<Rightarrow> pyfloat \<Rightarrow> pyval \<Rightarrow> pyval \<Rightarrow> string list \<Rightarrow> nat list
     \<Rightarrow> py_error + string list" where
  "caption_loop words start_time word_duration highlight_color regular_color ass_lines [] =
     Inr ass_lines"
| "caption_loop words start_time word_duration highlight_color regular_color ass_lines (i # rest) =
     (case dialogue_line words start_time word_duration highlight_color regular_color i of
        Inl e \<Rightarrow> Inl e
      | Inr new_line \<Rightarrow>
          caption_loop words start_time word_duration highlight_color regular_color
            (ass_lines @ [new_line]) rest)"

text \<open>Line 87 divides by \<open>len(words)\<close>: with no word Python raises
  \<open>ZeroDivisionError\<close>, whatever the two times are.\<close>

definition process_single_word_caption ::
  "string \<Rightarrow> pyfloat \<Rightarrow> pyfloat \<Rightarrow> pyval \<Rightarrow> pyval \<Rightarrow> py_error + string list" where
  "process_single_word_caption caption_text start_time end_time highlight_color regular_color =
     (let words = py_split_ws (py_strip caption_text) in
      if length words = 0 then Inl ZeroDivisionError
      else
        (let total_duration = fl_sub end_time start_time;
             word_duration = fl_div_nat total_duration (length words)
         in caption_loop words start_time word_duration highlight_color regular_color []
              [0..<length words]))"

subsection \<open>The SRT block loop (lines 107 to 135)\<close>

text \<open>Lines 119 to 124, for a block of at least three lines: the cue handed
  to \<open>process_single_word_caption\<close>. \<open>timecode[1]\<close> raises \<open>IndexError\<close> when the
  second line has no \<open> --> \<close>.\<close>

definition block_cue :: "string list \<Rightarrow> py_error + (pyfloat \<times> pyfloat \<times> string)" where
  "block_cue parts =
     (let timecode = py_split_sep '' --> '' (parts ! 1) in
      case parse_timecode (timecode ! 0) of
        Inl e \<Rightarrow> Inl e
      | Inr start_time \<Rightarrow>
          if length timecode < 2 then Inl IndexError
          else
            (case parse_timecode (timecode ! 1) of
               Inl e \<Rightarrow> Inl e
             | Inr end_time \<Rightarrow> Inr (start_time, end_time, py_join '' '' (drop 2 parts))))"

fun convert_blocks ::
  "pyval \<Rightarrow> pyval \<Rightarrow> string list \<Rightarrow> string list \<Rightarrow> py_error + string list" where
  "convert_blocks highlight_color regular_color ass_lines [] = Inr ass_lines"
| "convert_blocks highlight_color regular_color ass_lines (line # lines) =
     (let parts = py_split_sep ''\<newline>'' line in
      if 3 \<le> length parts then
        (case block_cue parts of
           Inl e \<Rightarrow> Inl e
         | Inr (start_time, end_time, caption_text) \<Rightarrow>
             (case process_single_word_caption caption_text start_time end_time
                     highlight_color regular_color of
                Inl e \<Rightarrow> Inl e
              | Inr new_lines \<Rightarrow>
                  convert_blocks highlight_color regular_color (ass_lines @ new_lines) lines))
      else convert_blocks highlight_color regular_color ass_lines lines)"

definition convert_srt_to_one_word_ass :: "string \<Rightarrow> options \<Rightarrow> py_error + string" where
  "convert_srt_to_one_word_ass srt_content options =
     (let lines = py_split_sep ''\<newline>\<newline>'' (py_strip srt_content);
          highlight_color = opt_get options ''highlight_color'' (PyStr ''FFFFFF'');
          regular_color = opt_get options ''regular_color'' (PyStr ''AAAAAA'')
      in case convert_blocks highlight_color regular_color [] lines of
           Inl e \<Rightarrow> Inl e
         | Inr ass_lines \<Rightarrow> Inr (py_join ''\<newline>'' ass_lines))"

subsection \<open>The job (lines 137 to 272)\<close>

text \<open>What \<open>requests.get\<close> returns: whether \<open>raise_for_status\<close> passes, the
  decoded text and the raw bytes.\<close>

record response =
  resp_ok :: bool
  resp_text :: string
  resp_content :: string

text \<open>The collaborators. Each may raise. \<open>ffmpeg_process\<close> is the encoder
  process that \<open>ffmpeg.input(video).output(out, vf=filter, acodec='copy').run()\<close>
  starts: it ends with an exit code, having written its diagnostics to its
  standard error stream. \<open>open_write\<close> is \<open>open(path, 'w')\<close> or
  \<open>open(path, 'wb')\<close> followed by \<open>write\<close>, and \<open>os_remove\<close> is \<open>os.remove\<close>:
  \<open>None\<close> when they succeed. \<open>FONT_PATHS\<close> is the table the module builds from
  the fonts directory when it is imported.\<close>

record world =
  download_file :: "string \<Rightarrow> string \<Rightarrow> py_error + string"
  requests_get :: "string \<Rightarrow> py_error + response"
  ffmpeg_process :: "string \<Rightarrow> string \<Rightarrow> string \<Rightarrow> py_error + int \<times> string"
  upload_to_gcs :: "string \<Rightarrow> string \<Rightarrow> py_error + string"
  open_write :: "string \<Rightarrow> py_error option"
  os_remove :: "string \<Rightarrow> py_error option"
  FONT_PATHS :: "string \<rightharpoonup> string"
  GCP_BUCKET_NAME :: string

text \<open>The call \<open>.run()\<close> of the \<open>ffmpeg\<close> package as line 252 makes it, with no
  argument. The package's \<open>run\<close> captures the standard error stream only when
  called with \<open>capture_stderr=True\<close>; called without, it lets the stream
  through and, on an exit code other than 0, raises \<open>ffmpeg.Error\<close> with
  \<open>stderr\<close> set to \<open>None\<close>. (The package is not part of the repository; this is
  its documented behaviour.)\<close>

definition ffmpeg_run :: "world \<Rightarrow> string \<Rightarrow> string \<Rightarrow> string \<Rightarrow> py_error + unit" where
  "ffmpeg_run w video_path output_path flt =
     (case ffmpeg_process w video_path output_path flt of
        Inl e \<Rightarrow> Inl e
      | Inr (exit_code, diagnostics) \<Rightarrow>
          if exit_code \<noteq> 0 then Inl (FFmpegError None) else Inr ())"

datatype event =
    DownloadFile string string
  | HttpGet string
  | WriteText string string
  | WriteBytes string string
  | FontWarning string
  | FFmpegRun string string string
  | FFmpegErrorLogged string
  | UploadToGcs string string
  | Remove string
  | ErrorLogged py_error

definition STORAGE_PATH :: string where
  "STORAGE_PATH = ''/tmp/''"

definition one_word_mode_of :: "options \<Rightarrow> bool" where
  "one_word_mode_of options = py_truthy (opt_get options ''one_word_mode'' (PyBool False))"

text \<open>Lines 144 to 155: the extension and the scratch path, switched to ASS
  when one-word mode is on.\<close>

definition effective_caption_type :: "options \<Rightarrow> string \<Rightarrow> string" where
  "effective_caption_type options caption_type =
     (if one_word_mode_of options \<and> caption_type \<noteq> ''ass'' then ''ass'' else caption_type)"

definition subtitle_extension :: "options \<Rightarrow> string \<Rightarrow> string" where
  "subtitle_extension options caption_type =
     (if one_word_mode_of options \<and> caption_type \<noteq> ''ass'' then ''.ass''
      else ''.'' @ caption_type)"

definition srt_path :: "options \<Rightarrow> string \<Rightarrow> string \<Rightarrow> string" where
  "srt_path options caption_type job_id =
     os_path_join STORAGE_PATH (job_id @ subtitle_extension options caption_type)"

text \<open>Lines 157 to 168: the ASS header around the style line.\<close>

definition ass_header :: "string \<Rightarrow> string" where
  "ass_header style_string =
     ''\<newline>[Script Info]\<newline>Title: Highlight Current Word\<newline>ScriptType: v4.00+\<newline>[V4+ Styles]\<newline>''
     @ ''Format: Name, Fontname, Fontsize, PrimaryColour, OutlineColour, BackColour, ''
     @ ''Bold, Italic, Underline, StrikeOut, ScaleX, ScaleY, Spacing, Angle, BorderStyle, ''
     @ ''Outline, Shadow, Alignment, MarginL, MarginR, MarginV, Encoding\<newline>''
     @ style_string
     @ ''\<newline>[Events]\<newline>''
     @ ''Format: Layer, Start, End, Style, Name, MarginL, MarginR, MarginV, Effect, Text\<newline>''"

definition caption_style :: "options \<Rightarrow> string \<Rightarrow> string" where
  "caption_style options caption_type =
     (if effective_caption_type options caption_type = ''ass''
      then ass_header (generate_style_line options) else [])"

text \<open>Lines 171 to 199: the subtitle file. The result is the exception, if
  one is raised, and the events up to there.\<close>

definition write_subtitle :: "world \<Rightarrow> string \<Rightarrow> event list \<Rightarrow> (py_error + unit) \<times> event list" where
  "write_subtitle w path events =
     (case open_write w path of None \<Rightarrow> (Inr (), events) | Some e \<Rightarrow> (Inl e, events))"

definition materialize_subtitle ::
  "world \<Rightarrow> string \<Rightarrow> string \<Rightarrow> options \<Rightarrow> string \<Rightarrow> (py_error + unit) \<times> event list" where
  "materialize_subtitle w caption_srt caption_type options job_id =
     (let path = srt_path options caption_type job_id;
          style = caption_style options caption_type
      in if py_startswith caption_srt ''https'' then
           (case requests_get w caption_srt of
              Inl e \<Rightarrow> (Inl e, [HttpGet caption_srt])
            | Inr resp \<Rightarrow>
                if \<not> resp_ok resp then (Inl HTTPError, [HttpGet caption_srt])
                else if one_word_mode_of options then
                  (case convert_srt_to_one_word_ass (resp_text resp) options of
                     Inl e \<Rightarrow> (Inl e, [HttpGet caption_srt])
                   | Inr body \<Rightarrow>
                       write_subtitle w path
                         [HttpGet caption_srt, WriteText path (style @ body)])
                else if effective_caption_type options caption_type \<in> set [''srt'', ''vtt'']
                then write_subtitle w path
                       [HttpGet caption_srt, WriteBytes path (resp_content resp)]
                else write_subtitle w path
                       [HttpGet caption_srt, WriteText path (style @ resp_text resp)])
         else if one_word_mode_of options then
           (case convert_srt_to_one_word_ass caption_srt options of
              Inl e \<Rightarrow> (Inl e, [])
            | Inr body \<Rightarrow> write_subtitle w path [WriteText path (style @ body)])
         else write_subtitle w path [WriteText path (style @ caption_srt)])"

text \<open>Lines 204 to 210: the font lookup. A value that is not a string is
  not a key of the table.\<close>

definition select_font :: "world \<Rightarrow> options \<Rightarrow> string option \<times> event list" where
  "select_font w options =
     (let font_name = opt_get options ''font_name'' (PyStr ''Arial'') in
      case font_name of
        PyStr n \<Rightarrow>
          (case FONT_PATHS w n of
             Some p \<Rightarrow> (Some p, [])
           | None \<Rightarrow> (FONT_PATHS w ''Arial'', [FontWarning n]))
      | v \<Rightarrow> (FONT_PATHS w ''Arial'', [FontWarning (py_str v)]))"

text \<open>Lines 212 to 243: the filter argument.\<close>

definition force_style_options :: "options \<Rightarrow> (string \<times> pyval) list" where
  "force_style_options options =
     [(''FontName'', opt_get options ''font_name'' (PyStr ''Arial'')),
      (''FontSize'', opt_get options ''font_size'' (PyInt 24)),
      (''PrimaryColour'', opt_get options ''primary_color'' (PyStr ''&H00FFFFFF'')),
      (''SecondaryColour'', opt_get options ''secondary_color'' (PyStr ''&H00000000'')),
      (''OutlineColour'', opt_get options ''outline_color'' (PyStr ''&H00000000'')),
      (''BackColour'', opt_get options ''back_color'' (PyStr ''&H00000000'')),
      (''Bold'', opt_get options ''bold'' (PyInt 0)),
      (''Italic'', opt_get options ''italic'' (PyInt 0)),
      (''Underline'', opt_get options ''underline'' (PyInt 0)),
      (''StrikeOut'', opt_get options ''strikeout'' (PyInt 0)),
      (''Alignment'', opt_get options ''alignment'' (PyInt 2)),
      (''MarginV'', opt_get options ''margin_v'' (PyInt 10)),
      (''MarginL'', opt_get options ''margin_l'' (PyInt 10)),
      (''MarginR'', opt_get options ''margin_r'' (PyInt 10)),
      (''Outline'', opt_get options ''outline'' (PyInt 1)),
      (''Shadow'', opt_get options ''shadow'' (PyInt 0)),
      (''Blur'', opt_get options ''blur'' (PyInt 0)),
      (''BorderStyle'', opt_get options ''border_style'' (PyInt 1)),
      (''Encoding'', opt_get options ''encoding'' (PyInt 1)),
      (''Spacing'', opt_get options ''spacing'' (PyInt 0)),
      (''Angle'', opt_get options ''angle'' (PyInt 0)),
      (''UpperCase'', opt_get options ''uppercase'' (PyInt 0))]"

definition force_style_clause :: "(string \<times> pyval) list \<Rightarrow> string" where
  "force_style_clause style =
     py_join '','' (map (\<lambda>kv. fst kv @ ''='' @ py_str (snd kv))
                     (filter (\<lambda>kv. snd kv \<noteq> PyNone) style))"

definition subtitle_filter :: "options \<Rightarrow> string \<Rightarrow> string \<Rightarrow> string" where
  "subtitle_filter options caption_type job_id =
     (if subtitle_extension options caption_type = ''.ass''
      then ''subtitles='' @ [CHR 0x27] @ srt_path options caption_type job_id @ [CHR 0x27]
      else ''subtitles='' @ srt_path options caption_type job_id @ '':force_style='' @ [CHR 0x27]
             @ force_style_clause (force_style_options options) @ [CHR 0x27])"

text \<open>Lines 254 to 258: the message logged for an \<open>ffmpeg.Error\<close>.\<close>

definition ffmpeg_error_message :: "string option \<Rightarrow> string" where
  "ffmpeg_error_message stderr =
     (case stderr of
        None \<Rightarrow> ''Unknown FFmpeg error''
      | Some s \<Rightarrow> if s = [] then ''Unknown FFmpeg error'' else s)"

text \<open>Lines 265 to 267: the three scratch files are removed in turn; the
  first removal that raises ends the job.\<close>

fun remove_all :: "world \<Rightarrow> string list \<Rightarrow> py_error option \<times> event list" where
  "remove_all w [] = (None, [])"
| "remove_all w (path # paths) =
     (case os_remove w path of
        Some e \<Rightarrow> (Some e, [Remove path])
      | None \<Rightarrow> (case remove_all w paths of (res, events) \<Rightarrow> (res, Remove path # events)))"

text \<open>Lines 201 to 269: encode, upload, remove the scratch files.\<close>

definition encode_and_publish ::
  "world \<Rightarrow> options \<Rightarrow> string \<Rightarrow> string \<Rightarrow> string \<Rightarrow> (py_error + string) \<times> event list" where
  "encode_and_publish w options caption_type job_id video_path =
     (let output_path = os_path_join STORAGE_PATH (job_id @ ''_captioned.mp4'');
          (selected_font, font_events) = select_font w options;
          flt = subtitle_filter options caption_type job_id;
          run = FFmpegRun video_path output_path flt
      in case ffmpeg_run w video_path output_path flt of
           Inl e \<Rightarrow>
             (Inl e,
              font_events @ [run]
                @ (case e of
                     FFmpegError stderr \<Rightarrow> [FFmpegErrorLogged (ffmpeg_error_message stderr)]
                   | _ \<Rightarrow> []))
         | Inr u \<Rightarrow>
             (case upload_to_gcs w output_path (GCP_BUCKET_NAME w) of
                Inl e \<Rightarrow> (Inl e, font_events @ [run, UploadToGcs output_path (GCP_BUCKET_NAME w)])
              | Inr output_filename \<Rightarrow>
                  (case remove_all w
                          [video_path, srt_path options caption_type job_id, output_path] of
                     (res, removals) \<Rightarrow>
                       ((case res of None \<Rightarrow> Inr output_filename | Some e \<Rightarrow> Inl e),
                        font_events
                          @ [run, UploadToGcs output_path (GCP_BUCKET_NAME w)] @ removals))))"

text \<open>The body of the outer \<open>try\<close>.\<close>

definition process_captioning_body ::
  "world \<Rightarrow> string \<Rightarrow> string \<Rightarrow> string \<Rightarrow> (string \<times> pyval) list \<Rightarrow> string
     \<Rightarrow> (py_error + string) \<times> event list" where
  "process_captioning_body w file_url caption_srt caption_type option_items job_id =
     (case download_file w file_url STORAGE_PATH of
        Inl e \<Rightarrow> (Inl e, [DownloadFile file_url STORAGE_PATH])
      | Inr video_path \<Rightarrow>
          (let options = convert_array_to_collection option_items in
           case materialize_subtitle w caption_srt caption_type options job_id of
             (Inl e, written) \<Rightarrow> (Inl e, DownloadFile file_url STORAGE_PATH # written)
           | (Inr u, written) \<Rightarrow>
               (case encode_and_publish w options caption_type job_id video_path of
                  (res, published) \<Rightarrow>
                    (res, DownloadFile file_url STORAGE_PATH # written @ published))))"

text \<open>The outer \<open>except Exception\<close>: log the error and raise it again.\<close>

definition process_captioning ::
  "world \<Rightarrow> string \<Rightarrow> string \<Rightarrow> string \<Rightarrow> (string \<times> pyval) list \<Rightarrow> string
     \<Rightarrow> (py_error + string) \<times> event list" where
  "process_captioning w file_url caption_srt caption_type option_items job_id =
     (case process_captioning_body w file_url caption_srt caption_type option_items job_id of
        (Inl e, events) \<Rightarrow> (Inl e, events @ [ErrorLogged e])
      | (Inr output_filename, events) \<Rightarrow> (Inr output_filename, events))"

text \<open>A world in which every collaborator succeeds and the font table holds
  \<open>Arial\<close> only; the examples below run in it or in a variant of it.\<close>

definition demo_world :: world where
  "demo_world =
     \<lparr> download_file = (\<lambda>url dir. Inr (dir @ ''video.mp4'')),
       requests_get = (\<lambda>url. Inr \<lparr> resp_ok = True, resp_text = ''remote text'', resp_content = ''remote bytes'' \<rparr>),
       ffmpeg_process = (\<lambda>video out flt. Inr (0, ''frame= 1 fps=0.0'')),
       upload_to_gcs = (\<lambda>path bucket. Inr (''gs://'' @ bucket @ path)),
       open_write = (\<lambda>path. None),
       os_remove = (\<lambda>path. None),
       FONT_PATHS = [''Arial'' \<mapsto> ''/usr/share/fonts/custom/Arial.ttf''],
       GCP_BUCKET_NAME = ''bucket'' \<rparr>"



section \<open>Properties\<close>

subsection \<open>Splitting, joining and digits\<close>

declare show_nat.simps [simp del]

lemma split_sep_aux_char_run:
  "c \<notin> set a \<Longrightarrow> split_sep_aux [c] 0 cur (a @ rest) = split_sep_aux [c] 0 (rev a @ cur) rest"
  by (induction a arbitrary: cur) auto

lemma split_sep_char_append:
  "c \<notin> set a \<Longrightarrow> py_split_sep [c] (a @ c # rest) = a # py_split_sep [c] rest"
  unfolding py_split_sep_def
  using split_sep_aux_char_run [of c a "[]" "c # rest"] by simp

lemma split_sep_char_last:
  "c \<notin> set a \<Longrightarrow> py_split_sep [c] a = [a]"
  unfolding py_split_sep_def
  using split_sep_aux_char_run [of c a "[]" "[]"] by simp

lemma split_join_char:
  "xs \<noteq> [] \<Longrightarrow> list_all (\<lambda>x. c \<notin> set x) xs \<Longrightarrow> py_split_sep [c] (py_join [c] xs) = xs"
proof (induction "[c]" xs rule: py_join.induct)
  case 1
  then show ?case by simp
next
  case (2 x)
  then show ?case by (simp add: split_sep_char_last)
next
  case (3 x y ys)
  then show ?case by (simp add: split_sep_char_append)
qed

lemma join_prefix: "p @ py_join sep (x # xs) = py_join sep ((p @ x) # xs)"
  by (cases xs) auto

lemma digit_char_props:
  "d < 10 \<Longrightarrow> is_digit (digit_char d)"
  "d < 10 \<Longrightarrow> digit_val (digit_char d) = d"
  by (simp_all add: is_digit_def digit_val_def digit_char_def)

lemma is_digit_neq:
  "is_digit c \<Longrightarrow> c \<noteq> CHR '',''"
  "is_digit c \<Longrightarrow> c \<noteq> CHR '':''"
  "is_digit c \<Longrightarrow> c \<noteq> CHR ''.''"
  "is_digit c \<Longrightarrow> c \<noteq> CHR ''_''"
  "is_digit c \<Longrightarrow> c \<noteq> CHR ''-''"
  "is_digit c \<Longrightarrow> c \<noteq> CHR ''+''"
  "is_digit c \<Longrightarrow> \<not> py_isspace c"
  by (auto simp: is_digit_def py_isspace_def)

lemma show_nat_digits: "list_all is_digit (show_nat n)"
proof (induction n rule: show_nat.induct)
  case (1 n)
  show ?case
  proof (cases "n < 10")
    case True
    then show ?thesis by (simp add: show_nat.simps [of n] digit_char_props)
  next
    case False
    with 1 show ?thesis by (simp add: show_nat.simps [of n] digit_char_props)
  qed
qed

lemma show_nat_nonempty: "show_nat n \<noteq> []"
  by (simp add: show_nat.simps [of n])

lemma show_nat_no_comma: "CHR '','' \<notin> set (show_nat n)"
  using show_nat_digits [of n] is_digit_neq(1) by (auto simp: list_all_iff)

lemma show_int_no_comma: "CHR '','' \<notin> set (show_int i)"
  by (simp add: show_int_def show_nat_no_comma)

subsection \<open>The style line\<close>

lemma opt_get_no_comma:
  assumes "\<forall>v. options k = Some v \<longrightarrow> CHR '','' \<notin> set (py_str v)"
      and "CHR '','' \<notin> set (py_str d)"
  shows "CHR '','' \<notin> set (py_str (opt_get options k d))"
  using assms by (auto simp: opt_get_def split: option.splits)

lemma style_values_no_comma:
  assumes "\<forall>k \<in> set [''font_name'', ''font_size'', ''primary_color'', ''outline_color'',
                         ''back_color'', ''bold'', ''italic'', ''underline'', ''strikeout'',
                         ''outline'', ''shadow'', ''alignment'', ''margin_l'', ''margin_r'',
                         ''margin_v'', ''encoding''].
             \<forall>v. options k = Some v \<longrightarrow> CHR '','' \<notin> set (py_str v)"
  shows "list_all (\<lambda>x. CHR '','' \<notin> set x)
           (map (\<lambda>kv. py_str (snd kv)) (style_options options))"
proof -
  have key: "\<And>k d. k \<in> set [''font_name'', ''font_size'', ''primary_color'', ''outline_color'',
                         ''back_color'', ''bold'', ''italic'', ''underline'', ''strikeout'',
                         ''outline'', ''shadow'', ''alignment'', ''margin_l'', ''margin_r'',
                         ''margin_v'', ''encoding''] \<Longrightarrow> CHR '','' \<notin> set (py_str d)
                \<Longrightarrow> CHR '','' \<notin> set (py_str (opt_get options k d))"
    using assms by (intro opt_get_no_comma) blast+
  show ?thesis
    unfolding style_options_def
    by (simp add: key show_int_no_comma)
qed

lemma fixed_style_values:
  "show_int 100 = ''100''" "show_int 0 = ''0''" "show_int 1 = ''1''"
  by code_simp+

text \<open>
  Claim C5, as the code has it. \<open>generate_style_line\<close> joins the renderings of
  22 values with commas and escapes nothing. When none of the sixteen options
  it reads is supplied with a value that renders with a comma in it,
  splitting the line at the commas gives exactly
  22 fields, in the fixed order: the name (after the \<open>Style: \<close> tag), font
  name, font size, primary, outline and back colour, bold, italic,
  underline, strikeout, 100, 100, 0, 0, 1, outline width, shadow depth,
  alignment, left, right and vertical margin, encoding.
\<close>

theorem style_line_fields:
  assumes "\<forall>k \<in> set [''font_name'', ''font_size'', ''primary_color'', ''outline_color'',
                         ''back_color'', ''bold'', ''italic'', ''underline'', ''strikeout'',
                         ''outline'', ''shadow'', ''alignment'', ''margin_l'', ''margin_r'',
                         ''margin_v'', ''encoding''].
             \<forall>v. options k = Some v \<longrightarrow> CHR '','' \<notin> set (py_str v)"
  shows "py_split_sep '','' (generate_style_line options) =
           [''Style: Default'',
            py_str (opt_get options ''font_name'' (PyStr ''Arial'')),
            py_str (opt_get options ''font_size'' (PyInt 24)),
            py_str (opt_get options ''primary_color'' (PyStr ''&H00FFFFFF'')),
            py_str (opt_get options ''outline_color'' (PyStr ''&H00000000'')),
            py_str (opt_get options ''back_color'' (PyStr ''&H00000000'')),
            py_str (opt_get options ''bold'' (PyInt 0)),
            py_str (opt_get options ''italic'' (PyInt 0)),
            py_str (opt_get options ''underline'' (PyInt 0)),
            py_str (opt_get options ''strikeout'' (PyInt 0)),
            ''100'', ''100'', ''0'', ''0'', ''1'',
            py_str (opt_get options ''outline'' (PyInt 1)),
            py_str (opt_get options ''shadow'' (PyInt 0)),
            py_str (opt_get options ''alignment'' (PyInt 2)),
            py_str (opt_get options ''margin_l'' (PyInt 10)),
            py_str (opt_get options ''margin_r'' (PyInt 10)),
            py_str (opt_get options ''margin_v'' (PyInt 10)),
            py_str (opt_get options ''encoding'' (PyInt 1))]
         \<and> length (py_split_sep '','' (generate_style_line options)) = 22"
proof -
  let ?vals = "map (\<lambda>kv. py_str (snd kv)) (style_options options)"
  have tagged: "generate_style_line options = py_join '','' ((''Style: '' @ hd ?vals) # tl ?vals)"
    unfolding generate_style_line_def style_options_def by simp
  have "list_all (\<lambda>x. CHR '','' \<notin> set x) ?vals"
    by (rule style_values_no_comma [OF assms])
  then have clean: "list_all (\<lambda>x. CHR '','' \<notin> set x) ((''Style: '' @ hd ?vals) # tl ?vals)"
    unfolding style_options_def by simp
  have "py_split_sep '','' (generate_style_line options) = (''Style: '' @ hd ?vals) # tl ?vals"
    unfolding tagged by (rule split_join_char [OF _ clean]) simp
  then show ?thesis
    unfolding style_options_def by (simp add: fixed_style_values)
qed

theorem style_line_fields_witness:
  "py_split_sep '','' (generate_style_line [''font_name'' \<mapsto> PyStr ''Impact'', ''bold'' \<mapsto> PyInt 1])
     = [''Style: Default'', ''Impact'', ''24'', ''&H00FFFFFF'', ''&H00000000'', ''&H00000000'',
        ''1'', ''0'', ''0'', ''0'', ''100'', ''100'', ''0'', ''0'', ''1'', ''1'', ''0'', ''2'',
        ''10'', ''10'', ''10'', ''1'']"
proof -
  let ?m = "[''font_name'' \<mapsto> PyStr ''Impact'', ''bold'' \<mapsto> PyInt 1]"
  have digits: "show_int 1 = ''1''" by code_simp
  have h: "\<forall>k \<in> set [''font_name'', ''font_size'', ''primary_color'', ''outline_color'',
                         ''back_color'', ''bold'', ''italic'', ''underline'', ''strikeout'',
                         ''outline'', ''shadow'', ''alignment'', ''margin_l'', ''margin_r'',
                         ''margin_v'', ''encoding''].
             \<forall>v. ?m k = Some v \<longrightarrow> CHR '','' \<notin> set (py_str v)"
    by (simp add: digits)
  have vals: "show_int 24 = ''24''" "show_int 2 = ''2''" "show_int 10 = ''10''"
    by code_simp+
  show ?thesis
    by (rule trans [OF conjunct1 [OF style_line_fields [OF h]]])
       (simp add: opt_get_def vals fixed_style_values)
qed

text \<open>The claim as the spec states it fails for a font name with a comma in
  it: the line then splits into 23 fields.\<close>

theorem style_line_comma_counterexample:
  "length (py_split_sep '',''
     (generate_style_line (convert_array_to_collection [(''font_name'', PyStr ''A,B'')]))) = 23"
  by code_simp

subsection \<open>The job\<close>

lemma materialize_events:
  "set (snd (materialize_subtitle w caption_srt caption_type options job_id))
     \<subseteq> range HttpGet \<union> range (\<lambda>(p, c). WriteText p c) \<union> range (\<lambda>(p, c). WriteBytes p c)"
  unfolding materialize_subtitle_def write_subtitle_def Let_def
  by (auto split: sum.splits option.splits)

lemma select_font_events:
  "set (snd (select_font w options)) \<subseteq> range FontWarning"
  unfolding select_font_def Let_def
  by (auto split: pyval.splits option.splits)

lemma materialize_fetch_iff:
  "(HttpGet u \<in> set (snd (materialize_subtitle w caption_srt caption_type options job_id)))
     = (py_startswith caption_srt ''https'' \<and> u = caption_srt)"
  unfolding materialize_subtitle_def write_subtitle_def Let_def
  by (auto split: sum.splits option.splits)

lemma remove_all_events: "set (snd (remove_all w paths)) \<subseteq> range Remove"
  by (induction paths) (auto split: option.splits prod.splits)

lemma encode_no_fetch:
  "HttpGet u \<notin> set (snd (encode_and_publish w options caption_type job_id video_path))"
  using select_font_events [of w options]
        remove_all_events [of w "[video_path, srt_path options caption_type job_id,
                                   os_path_join STORAGE_PATH (job_id @ ''_captioned.mp4'')]"]
  unfolding encode_and_publish_def Let_def
  by (auto split: sum.splits prod.splits py_error.splits option.splits)

lemma encode_failure:
  assumes "ffmpeg_run w video_path (os_path_join STORAGE_PATH (job_id @ ''_captioned.mp4''))
             (subtitle_filter options caption_type job_id) = Inl e"
  shows "encode_and_publish w options caption_type job_id video_path =
           (Inl e,
            snd (select_font w options)
              @ [FFmpegRun video_path (os_path_join STORAGE_PATH (job_id @ ''_captioned.mp4''))
                   (subtitle_filter options caption_type job_id)]
              @ (case e of
                   FFmpegError stderr \<Rightarrow> [FFmpegErrorLogged (ffmpeg_error_message stderr)]
                 | _ \<Rightarrow> []))"
  using assms unfolding encode_and_publish_def Let_def
  by (simp split: prod.splits)


lemma process_captioning_trace:
  assumes "download_file w file_url STORAGE_PATH = Inr video_path"
  shows "process_captioning w file_url caption_srt caption_type option_items job_id =
           (let options = convert_array_to_collection option_items;
                mat = materialize_subtitle w caption_srt caption_type options job_id;
                enc = encode_and_publish w options caption_type job_id video_path
            in case fst mat of
                 Inl e \<Rightarrow> (Inl e, DownloadFile file_url STORAGE_PATH # snd mat @ [ErrorLogged e])
               | Inr u \<Rightarrow>
                   (case fst enc of
                      Inl e \<Rightarrow> (Inl e, DownloadFile file_url STORAGE_PATH # snd mat @ snd enc @ [ErrorLogged e])
                    | Inr name \<Rightarrow> (Inr name, DownloadFile file_url STORAGE_PATH # snd mat @ snd enc)))"
  using assms
  unfolding process_captioning_def process_captioning_body_def Let_def
  by (auto split: sum.splits prod.splits)

lemma http_is_not_https: "\<not> py_startswith (''http://'' @ rest) ''https''"
  by (simp add: py_startswith_def)

text \<open>
  Claim C10. Once the video is downloaded, the job fetches the caption source
  exactly when the source starts with \<open>https\<close> (and then it fetches that very
  string). Any other source, one starting with \<open>http://\<close> included, is caption
  text: the job writes it to the subtitle path behind the header, after the
  one-word conversion when that mode is on; if the conversion raises, the job
  ends with its error.
\<close>

theorem remote_iff_https_prefix:
  assumes dl: "download_file w file_url STORAGE_PATH = Inr video_path"
  shows "(\<exists>u. HttpGet u \<in> set (snd (process_captioning w file_url caption_srt caption_type
                                       option_items job_id)))
           = py_startswith caption_srt ''https''
         \<and> (\<forall>u. HttpGet u \<in> set (snd (process_captioning w file_url caption_srt caption_type
                                          option_items job_id)) \<longrightarrow> u = caption_srt)
         \<and> (\<not> py_startswith caption_srt ''https'' \<longrightarrow>
              (case (if one_word_mode_of (convert_array_to_collection option_items)
                     then convert_srt_to_one_word_ass caption_srt
                            (convert_array_to_collection option_items)
                     else Inr caption_srt) of
                 Inl e \<Rightarrow>
                   process_captioning w file_url caption_srt caption_type option_items job_id
                     = (Inl e, [DownloadFile file_url STORAGE_PATH, ErrorLogged e])
               | Inr body \<Rightarrow>
                   take 2 (snd (process_captioning w file_url caption_srt caption_type
                                  option_items job_id))
                     = [DownloadFile file_url STORAGE_PATH,
                        WriteText (srt_path (convert_array_to_collection option_items)
                                     caption_type job_id)
                          (caption_style (convert_array_to_collection option_items) caption_type
                             @ body)]))
         \<and> \<not> py_startswith (''http://'' @ rest) ''https''"
proof -
  let ?o = "convert_array_to_collection option_items"
  let ?m = "materialize_subtitle w caption_srt caption_type ?o job_id"
  let ?e = "encode_and_publish w ?o caption_type job_id video_path"
  let ?t = "snd (process_captioning w file_url caption_srt caption_type option_items job_id)"
  have mem: "\<And>u. (HttpGet u \<in> set ?t) = (py_startswith caption_srt ''https'' \<and> u = caption_srt)"
    unfolding process_captioning_trace [OF dl] Let_def
    using encode_no_fetch [of _ w ?o caption_type job_id video_path]
    by (auto simp: materialize_fetch_iff split: sum.splits)
  have a: "(\<exists>u. HttpGet u \<in> set ?t) = py_startswith caption_srt ''https''"
    unfolding mem by simp
  have b: "\<forall>u. HttpGet u \<in> set ?t \<longrightarrow> u = caption_srt"
    unfolding mem by simp
  have c: "\<not> py_startswith caption_srt ''https'' \<longrightarrow>
              (case (if one_word_mode_of ?o then convert_srt_to_one_word_ass caption_srt ?o
                     else Inr caption_srt) of
                 Inl e \<Rightarrow>
                   process_captioning w file_url caption_srt caption_type option_items job_id
                     = (Inl e, [DownloadFile file_url STORAGE_PATH, ErrorLogged e])
               | Inr body \<Rightarrow>
                   take 2 ?t
                     = [DownloadFile file_url STORAGE_PATH,
                        WriteText (srt_path ?o caption_type job_id)
                          (caption_style ?o caption_type @ body)])"
    unfolding process_captioning_trace [OF dl] Let_def materialize_subtitle_def
              write_subtitle_def
    by (auto split: sum.splits option.splits)
  show ?thesis
    using a b c http_is_not_https by blast
qed

theorem remote_iff_https_prefix_witness:
  "\<not> py_startswith ''http://host/subs.srt'' ''https''
   \<and> (\<forall>u. HttpGet u \<notin> set (snd (process_captioning demo_world ''http://host/in.mp4''
                                      ''http://host/subs.srt'' ''srt'' [] ''job1'')))
   \<and> take 2 (snd (process_captioning demo_world ''http://host/in.mp4''
                     ''http://host/subs.srt'' ''srt'' [] ''job1''))
       = [DownloadFile ''http://host/in.mp4'' ''/tmp/'',
          WriteText ''/tmp/job1.srt'' ''http://host/subs.srt'']
   \<and> (\<exists>u. HttpGet u \<in> set (snd (process_captioning demo_world ''http://host/in.mp4''
                                      ''https://host/subs.srt'' ''srt'' [] ''job1'')))"
proof -
  have dl: "download_file demo_world ''http://host/in.mp4'' STORAGE_PATH = Inr ''/tmp/video.mp4''"
    by code_simp
  note plain = remote_iff_https_prefix [OF dl, where caption_srt = "''http://host/subs.srt''"
      and caption_type = "''srt''" and option_items = "[]" and job_id = "''job1''"
      and rest = "''host/subs.srt''"]
  note secure = remote_iff_https_prefix [OF dl, where caption_srt = "''https://host/subs.srt''"
      and caption_type = "''srt''" and option_items = "[]" and job_id = "''job1''"
      and rest = "''host/subs.srt''"]
  have no: "\<not> py_startswith ''http://host/subs.srt'' ''https''"
    using plain by simp
  have yes: "py_startswith ''https://host/subs.srt'' ''https''"
    by code_simp
  have mode: "\<not> one_word_mode_of (convert_array_to_collection [])"
    by code_simp
  have path: "srt_path (convert_array_to_collection []) ''srt'' ''job1'' = ''/tmp/job1.srt''"
    by code_simp
  have style: "caption_style (convert_array_to_collection []) ''srt'' = []"
    by code_simp
  have a: "\<forall>u. HttpGet u \<notin> set (snd (process_captioning demo_world ''http://host/in.mp4''
                                      ''http://host/subs.srt'' ''srt'' [] ''job1''))"
    using conjunct1 [OF plain] no by blast
  have b: "take 2 (snd (process_captioning demo_world ''http://host/in.mp4''
                     ''http://host/subs.srt'' ''srt'' [] ''job1''))
       = [DownloadFile ''http://host/in.mp4'' ''/tmp/'',
          WriteText ''/tmp/job1.srt'' ''http://host/subs.srt'']"
    using conjunct1 [OF conjunct2 [OF conjunct2 [OF plain]]] no mode path style
    by (simp add: STORAGE_PATH_def)
  have c: "\<exists>u. HttpGet u \<in> set (snd (process_captioning demo_world ''http://host/in.mp4''
                                      ''https://host/subs.srt'' ''srt'' [] ''job1''))"
    using conjunct1 [OF secure] yes by blast
  show ?thesis using no a b c by blast
qed

text \<open>
  Claim C8. For a dialect other than ASS (the extension is not \<open>.ass\<close>), the
  filter argument is \<open>subtitles=\<close>, the subtitle path, \<open>:force_style=\<close> and, in
  single quotes, the comma-joined \<open>key=value\<close> pairs of the style dictionary
  whose value is not \<open>None\<close>, in the dictionary's order: every key with the
  value \<open>None\<close> is left out and every other key is there.
\<close>

theorem force_style_omits_unset:
  assumes "subtitle_extension options caption_type \<noteq> ''.ass''"
  shows "subtitle_filter options caption_type job_id =
           ''subtitles='' @ srt_path options caption_type job_id @ '':force_style='' @ [CHR 0x27]
             @ py_join '',''
                 (map (\<lambda>kv. fst kv @ ''='' @ py_str (snd kv))
                    (filter (\<lambda>kv. snd kv \<noteq> PyNone) (force_style_options options)))
             @ [CHR 0x27]
         \<and> map fst (force_style_options options) =
             [''FontName'', ''FontSize'', ''PrimaryColour'', ''SecondaryColour'',
              ''OutlineColour'', ''BackColour'', ''Bold'', ''Italic'', ''Underline'',
              ''StrikeOut'', ''Alignment'', ''MarginV'', ''MarginL'', ''MarginR'', ''Outline'',
              ''Shadow'', ''Blur'', ''BorderStyle'', ''Encoding'', ''Spacing'', ''Angle'',
              ''UpperCase'']
         \<and> map snd (force_style_options options) =
             [opt_get options ''font_name'' (PyStr ''Arial''),
              opt_get options ''font_size'' (PyInt 24),
              opt_get options ''primary_color'' (PyStr ''&H00FFFFFF''),
              opt_get options ''secondary_color'' (PyStr ''&H00000000''),
              opt_get options ''outline_color'' (PyStr ''&H00000000''),
              opt_get options ''back_color'' (PyStr ''&H00000000''),
              opt_get options ''bold'' (PyInt 0),
              opt_get options ''italic'' (PyInt 0),
              opt_get options ''underline'' (PyInt 0),
              opt_get options ''strikeout'' (PyInt 0),
              opt_get options ''alignment'' (PyInt 2),
              opt_get options ''margin_v'' (PyInt 10),
              opt_get options ''margin_l'' (PyInt 10),
              opt_get options ''margin_r'' (PyInt 10),
              opt_get options ''outline'' (PyInt 1),
              opt_get options ''shadow'' (PyInt 0),
              opt_get options ''blur'' (PyInt 0),
              opt_get options ''border_style'' (PyInt 1),
              opt_get options ''encoding'' (PyInt 1),
              opt_get options ''spacing'' (PyInt 0),
              opt_get options ''angle'' (PyInt 0),
              opt_get options ''uppercase'' (PyInt 0)]
         \<and> (\<forall>kv \<in> set (force_style_options options).
               (kv \<in> set (filter (\<lambda>kv. snd kv \<noteq> PyNone) (force_style_options options)))
                 = (snd kv \<noteq> PyNone))"
proof (intro conjI)
  show "subtitle_filter options caption_type job_id =
           ''subtitles='' @ srt_path options caption_type job_id @ '':force_style='' @ [CHR 0x27]
             @ py_join '',''
                 (map (\<lambda>kv. fst kv @ ''='' @ py_str (snd kv))
                    (filter (\<lambda>kv. snd kv \<noteq> PyNone) (force_style_options options)))
             @ [CHR 0x27]"
    using assms unfolding subtitle_filter_def force_style_clause_def by simp
next
  show "\<forall>kv \<in> set (force_style_options options).
               (kv \<in> set (filter (\<lambda>kv. snd kv \<noteq> PyNone) (force_style_options options)))
                 = (snd kv \<noteq> PyNone)"
    by simp
qed (simp_all add: force_style_options_def)

theorem force_style_omits_unset_witness:
  "subtitle_extension [''bold'' \<mapsto> PyNone, ''font_name'' \<mapsto> PyStr ''Impact''] ''srt'' = ''.srt''
   \<and> subtitle_filter [''bold'' \<mapsto> PyNone, ''font_name'' \<mapsto> PyStr ''Impact''] ''srt'' ''job1'' =
       ''subtitles=/tmp/job1.srt:force_style='' @ [CHR 0x27]
         @ ''FontName=Impact,FontSize=24,PrimaryColour=&H00FFFFFF,SecondaryColour=&H00000000,''
         @ ''OutlineColour=&H00000000,BackColour=&H00000000,Italic=0,Underline=0,''
         @ ''StrikeOut=0,Alignment=2,MarginV=10,MarginL=10,MarginR=10,Outline=1,Shadow=0,''
         @ ''Blur=0,BorderStyle=1,Encoding=1,Spacing=0,Angle=0,UpperCase=0'' @ [CHR 0x27]"
proof -
  let ?o = "[''bold'' \<mapsto> PyNone, ''font_name'' \<mapsto> PyStr ''Impact'']"
  have ext: "subtitle_extension ?o ''srt'' = ''.srt''"
    by code_simp
  then have h: "subtitle_extension ?o ''srt'' \<noteq> ''.ass''"
    by simp
  have flt: "subtitle_filter ?o ''srt'' ''job1'' =
       ''subtitles=/tmp/job1.srt:force_style='' @ [CHR 0x27]
         @ ''FontName=Impact,FontSize=24,PrimaryColour=&H00FFFFFF,SecondaryColour=&H00000000,''
         @ ''OutlineColour=&H00000000,BackColour=&H00000000,Italic=0,Underline=0,''
         @ ''StrikeOut=0,Alignment=2,MarginV=10,MarginL=10,MarginR=10,Outline=1,Shadow=0,''
         @ ''Blur=0,BorderStyle=1,Encoding=1,Spacing=0,Angle=0,UpperCase=0'' @ [CHR 0x27]"
    by (rule trans [OF conjunct1 [OF force_style_omits_unset [OF h]]]) code_simp
  show ?thesis using ext flt by blast
qed

text \<open>
  Claim C7, at a font the table does not have. The lookup warns and picks the
  path of \<open>Arial\<close>, and the job succeeds; but the filter argument is built from
  the requested name, so it says \<open>FontName=Comic\<close>: the picked font is used
  nowhere.
\<close>

theorem unknown_font_keeps_requested_name:
  "select_font demo_world [''font_name'' \<mapsto> PyStr ''Comic'']
     = (Some ''/usr/share/fonts/custom/Arial.ttf'', [FontWarning ''Comic''])
   \<and> fst (process_captioning demo_world ''http://host/in.mp4'' ''hello'' ''srt''
            [(''font_name'', PyStr ''Comic'')] ''job1'')
       = Inr ''gs://bucket/tmp/job1_captioned.mp4''
   \<and> subtitle_filter (convert_array_to_collection [(''font_name'', PyStr ''Comic'')]) ''srt'' ''job1''
       = ''subtitles=/tmp/job1.srt:force_style='' @ [CHR 0x27]
         @ ''FontName=Comic,FontSize=24,PrimaryColour=&H00FFFFFF,SecondaryColour=&H00000000,''
         @ ''OutlineColour=&H00000000,BackColour=&H00000000,Bold=0,Italic=0,Underline=0,''
         @ ''StrikeOut=0,Alignment=2,MarginV=10,MarginL=10,MarginR=10,Outline=1,Shadow=0,''
         @ ''Blur=0,BorderStyle=1,Encoding=1,Spacing=0,Angle=0,UpperCase=0'' @ [CHR 0x27]
   \<and> FFmpegRun ''/tmp/video.mp4'' ''/tmp/job1_captioned.mp4''
         (subtitle_filter (convert_array_to_collection [(''font_name'', PyStr ''Comic'')]) ''srt'' ''job1'')
       \<in> set (snd (process_captioning demo_world ''http://host/in.mp4'' ''hello'' ''srt''
                      [(''font_name'', PyStr ''Comic'')] ''job1''))"
  by code_simp

subsection \<open>The block loop\<close>




lemma convert_blocks_append:
  "convert_blocks h r acc (pre @ post) =
     (case convert_blocks h r acc pre of
        Inl e \<Rightarrow> Inl e
      | Inr acc' \<Rightarrow> convert_blocks h r acc' post)"
  by (induction pre arbitrary: acc) (auto simp: Let_def split: sum.splits prod.splits)



lemma zero_words_raise:
  "py_split_ws (py_strip caption_text) = [] \<Longrightarrow>
   process_single_word_caption caption_text start_time end_time h r = Inl ZeroDivisionError"
  by (simp add: process_single_word_caption_def)

lemma convert_blocks_raise:
  assumes "convert_blocks h r [] pre = Inr acc"
      and "3 \<le> length (py_split_sep ''\<newline>'' line)"
      and "block_cue (py_split_sep ''\<newline>'' line) = Inr (start_time, end_time, caption_text)"
      and "process_single_word_caption caption_text start_time end_time h r = Inl e"
  shows "convert_blocks h r [] (pre @ line # rest) = Inl e"
  using assms by (simp add: convert_blocks_append Let_def)

text \<open>
  Claim C2. A caption text with no word makes \<open>process_single_word_caption\<close>
  raise at the division by the word count: Python's \<open>ZeroDivisionError\<close>, the
  error the spec calls \<open>EmptyCue\<close>. Nothing catches it on the way out: when
  the block loop of an inline one-word job reaches such a cue (the blocks
  before it converted), the job ends with that error right after the
  download; no subtitle file is written and the encoder is not run.
\<close>

theorem zero_word_cue_fails:
  assumes words: "py_split_ws (py_strip caption_text) = []"
      and dl: "download_file w file_url STORAGE_PATH = Inr video_path"
      and mode: "one_word_mode_of (convert_array_to_collection option_items)"
      and inline: "\<not> py_startswith caption_srt ''https''"
      and blocks: "py_split_sep ''\<newline>\<newline>'' (py_strip caption_srt) = pre @ line # rest"
      and before: "convert_blocks
                     (opt_get (convert_array_to_collection option_items) ''highlight_color'' (PyStr ''FFFFFF''))
                     (opt_get (convert_array_to_collection option_items) ''regular_color'' (PyStr ''AAAAAA''))
                     [] pre = Inr acc"
      and lines: "3 \<le> length (py_split_sep ''\<newline>'' line)"
      and cue: "block_cue (py_split_sep ''\<newline>'' line) = Inr (start_time, end_time, caption_text)"
  shows "process_single_word_caption caption_text start_time end_time h r = Inl ZeroDivisionError
         \<and> convert_srt_to_one_word_ass caption_srt (convert_array_to_collection option_items)
             = Inl ZeroDivisionError
         \<and> process_captioning w file_url caption_srt caption_type option_items job_id
             = (Inl ZeroDivisionError,
                [DownloadFile file_url STORAGE_PATH, ErrorLogged ZeroDivisionError])"
proof -
  let ?o = "convert_array_to_collection option_items"
  have a: "\<And>h r. process_single_word_caption caption_text start_time end_time h r
                  = Inl ZeroDivisionError"
    by (rule zero_words_raise [OF words])
  have b: "convert_srt_to_one_word_ass caption_srt ?o = Inl ZeroDivisionError"
    unfolding convert_srt_to_one_word_ass_def Let_def blocks
    using convert_blocks_raise [OF before lines cue a] by simp
  have m: "materialize_subtitle w caption_srt caption_type ?o job_id = (Inl ZeroDivisionError, [])"
    unfolding materialize_subtitle_def Let_def using inline mode b by simp
  have c: "process_captioning w file_url caption_srt caption_type option_items job_id
             = (Inl ZeroDivisionError,
                [DownloadFile file_url STORAGE_PATH, ErrorLogged ZeroDivisionError])"
    unfolding process_captioning_trace [OF dl] Let_def m by simp
  show ?thesis using a b c by blast
qed

theorem zero_word_cue_fails_witness:
  "py_split_ws (py_strip '' '') = []
   \<and> process_captioning demo_world ''http://host/in.mp4''
         ''1\<newline>00:00:00,000 --> 00:00:01,000\<newline> \<newline>\<newline>2\<newline>00:00:01,000 --> 00:00:02,000\<newline>hi''
         ''srt'' [(''one_word_mode'', PyBool True)] ''job1''
       = (Inl ZeroDivisionError,
          [DownloadFile ''http://host/in.mp4'' ''/tmp/'', ErrorLogged ZeroDivisionError])"
proof -
  let ?src = "''1\<newline>00:00:00,000 --> 00:00:01,000\<newline> \<newline>\<newline>2\<newline>00:00:01,000 --> 00:00:02,000\<newline>hi''"
  let ?items = "[(''one_word_mode'', PyBool True)]"
  let ?line = "''1\<newline>00:00:00,000 --> 00:00:01,000\<newline> ''"
  have words: "py_split_ws (py_strip '' '') = []"
    by code_simp
  have dl: "download_file demo_world ''http://host/in.mp4'' STORAGE_PATH = Inr ''/tmp/video.mp4''"
    by code_simp
  have mode: "one_word_mode_of (convert_array_to_collection ?items)"
    by code_simp
  have inline: "\<not> py_startswith ?src ''https''"
    by code_simp
  have blocks: "py_split_sep ''\<newline>\<newline>'' (py_strip ?src)
                  = [] @ ?line # [''2\<newline>00:00:01,000 --> 00:00:02,000\<newline>hi'']"
    by code_simp
  have before: "convert_blocks
                  (opt_get (convert_array_to_collection ?items) ''highlight_color'' (PyStr ''FFFFFF''))
                  (opt_get (convert_array_to_collection ?items) ''regular_color'' (PyStr ''AAAAAA''))
                  [] [] = Inr []"
    by simp
  have lines: "3 \<le> length (py_split_sep ''\<newline>'' ?line)"
    by code_simp
  have cue: "block_cue (py_split_sep ''\<newline>'' ?line) = Inr (Finite 0, Finite 1, '' '')"
    by code_simp
  note t = zero_word_cue_fails [OF words dl mode inline blocks before lines cue]
  have run: "process_captioning demo_world ''http://host/in.mp4'' ?src ''srt'' ?items ''job1''
       = (Inl ZeroDivisionError,
          [DownloadFile ''http://host/in.mp4'' ''/tmp/'', ErrorLogged ZeroDivisionError])"
    using conjunct2 [OF conjunct2 [OF t]] by (simp add: STORAGE_PATH_def)
  show ?thesis using words run by blast
qed

subsection \<open>Timecodes\<close>

lemma sum_seconds_cases:
  "sum_seconds acc ps =
     (if list_all (\<lambda>p. py_float (fst p) \<noteq> None) ps
      then Inr (foldl (\<lambda>a p. fl_add a (fl_mul (the (py_float (fst p))) (Finite (snd p)))) acc ps)
      else Inl ValueError)"
  by (induction ps arbitrary: acc) (auto split: option.splits)

lemma zip_three: "zip xs [a, b, c] = zip (take 3 xs) [a, b, c]"
proof -
  have "zip xs [a, b, c] = take 3 (zip xs [a, b, c])"
    by simp
  also have "\<dots> = zip (take 3 xs) (take 3 [a, b, c])"
    by (rule take_zip)
  finally show ?thesis by simp
qed

lemma list_all_fst_zip_three:
  "list_all (\<lambda>p. P (fst p)) (zip xs [a, b, c]) = list_all P (take 3 xs)"
proof -
  have "list_all (\<lambda>p. P (fst p)) (zip xs [a, b, c]) = list_all P (map fst (zip xs [a, b, c]))"
    by (simp add: list_all_iff)
  also have "map fst (zip xs [a, b, c]) = take 3 xs"
    by (simp add: map_fst_zip_take min_def numeral_3_eq_3)
  finally show ?thesis .
qed

text \<open>
  Claim C4, as the code has it. \<open>zip\<close> pairs the components, read from the
  right, with 1, 60 and 3600 and drops every component beyond the third:
  the result depends on the last three components only. Parsing raises
  (Python's \<open>ValueError\<close>, the spec's \<open>MalformedTimecode\<close>) exactly when
  \<open>float\<close> rejects one of these last three, and returns a seconds value
  otherwise, however many components the text has.
\<close>

theorem parse_timecode_last_three:
  "parse_timecode tc =
     sum_seconds (Finite 0)
       (zip (take 3 (rev (py_split_sep '':'' (py_replace_char (CHR '','') (CHR ''.'') tc))))
            [1, 60, 3600])
   \<and> (parse_timecode tc = Inl ValueError)
       = (\<not> list_all (\<lambda>c. py_float c \<noteq> None)
              (take 3 (rev (py_split_sep '':'' (py_replace_char (CHR '','') (CHR ''.'') tc)))))
   \<and> (\<exists>f. parse_timecode tc = Inr f)
       = list_all (\<lambda>c. py_float c \<noteq> None)
           (take 3 (rev (py_split_sep '':'' (py_replace_char (CHR '','') (CHR ''.'') tc))))"
proof -
  let ?cs = "rev (py_split_sep '':'' (py_replace_char (CHR '','') (CHR ''.'') tc))"
  have a: "parse_timecode tc = sum_seconds (Finite 0) (zip (take 3 ?cs) [1, 60, 3600])"
    unfolding parse_timecode_def by (rule arg_cong [OF zip_three])
  have ok: "list_all (\<lambda>p. py_float (fst p) \<noteq> None) (zip ?cs [1, 60, 3600 :: rat])
              = list_all (\<lambda>c. py_float c \<noteq> None) (take 3 ?cs)"
    by (rule list_all_fst_zip_three)
  have b: "(parse_timecode tc = Inl ValueError)
             = (\<not> list_all (\<lambda>c. py_float c \<noteq> None) (take 3 ?cs))"
    unfolding parse_timecode_def sum_seconds_cases ok by simp
  have c: "(\<exists>f. parse_timecode tc = Inr f) = list_all (\<lambda>c. py_float c \<noteq> None) (take 3 ?cs)"
    unfolding parse_timecode_def sum_seconds_cases ok by simp
  show ?thesis using a b c by blast
qed

text \<open>The claim as the spec states it fails: a text of four components
  parses, and so does one whose first of four components is not a number.\<close>

theorem parse_timecode_four_components_counterexample:
  "parse_timecode ''9:01:02:03'' = Inr (Finite 3723)
   \<and> parse_timecode ''x:01:02:03'' = Inr (Finite 3723)"
  by code_simp

subsection \<open>The encoder fails\<close>

lemma ffmpeg_run_nonzero:
  "ffmpeg_process w video_path output_path flt = Inr (exit_code, diagnostics) \<Longrightarrow>
   exit_code \<noteq> 0 \<Longrightarrow>
   ffmpeg_run w video_path output_path flt = Inl (FFmpegError None)"
  by (simp add: ffmpeg_run_def)

text \<open>
  Claim C9, as the code has it. When the download and the subtitle file
  succeed and the encoder process ends with an exit code other than 0,
  whatever it wrote to its standard error stream, the job ends with an
  \<open>ffmpeg.Error\<close> whose \<open>stderr\<close> is \<open>None\<close> and logs \<open>Unknown FFmpeg error\<close>: the
  diagnostics are not in the failure. The trace ends there: no upload and no
  removal of a scratch file is attempted.
\<close>

theorem encoder_failure_loses_diagnostic:
  assumes dl: "download_file w file_url STORAGE_PATH = Inr video_path"
      and mat: "fst (materialize_subtitle w caption_srt caption_type
                       (convert_array_to_collection option_items) job_id) = Inr ()"
      and enc: "ffmpeg_process w video_path (os_path_join STORAGE_PATH (job_id @ ''_captioned.mp4''))
                  (subtitle_filter (convert_array_to_collection option_items) caption_type job_id)
                = Inr (exit_code, diagnostics)"
      and code: "exit_code \<noteq> 0"
  shows "process_captioning w file_url caption_srt caption_type option_items job_id =
           (Inl (FFmpegError None),
            DownloadFile file_url STORAGE_PATH
              # snd (materialize_subtitle w caption_srt caption_type
                       (convert_array_to_collection option_items) job_id)
              @ snd (select_font w (convert_array_to_collection option_items))
              @ [FFmpegRun video_path (os_path_join STORAGE_PATH (job_id @ ''_captioned.mp4''))
                   (subtitle_filter (convert_array_to_collection option_items) caption_type job_id),
                 FFmpegErrorLogged ''Unknown FFmpeg error'',
                 ErrorLogged (FFmpegError None)])
         \<and> (\<forall>p b. UploadToGcs p b
                \<notin> set (snd (process_captioning w file_url caption_srt caption_type option_items job_id)))
         \<and> (\<forall>p. Remove p
                \<notin> set (snd (process_captioning w file_url caption_srt caption_type option_items job_id)))"
proof -
  let ?o = "convert_array_to_collection option_items"
  let ?m = "materialize_subtitle w caption_srt caption_type ?o job_id"
  have e: "encode_and_publish w ?o caption_type job_id video_path =
             (Inl (FFmpegError None),
              snd (select_font w ?o)
                @ [FFmpegRun video_path (os_path_join STORAGE_PATH (job_id @ ''_captioned.mp4''))
                     (subtitle_filter ?o caption_type job_id)]
                @ [FFmpegErrorLogged ''Unknown FFmpeg error''])"
    using encode_failure [OF ffmpeg_run_nonzero [OF enc code]]
    by (simp add: ffmpeg_error_message_def)
  have run: "process_captioning w file_url caption_srt caption_type option_items job_id =
           (Inl (FFmpegError None),
            DownloadFile file_url STORAGE_PATH # snd ?m @ snd (select_font w ?o)
              @ [FFmpegRun video_path (os_path_join STORAGE_PATH (job_id @ ''_captioned.mp4''))
                   (subtitle_filter ?o caption_type job_id),
                 FFmpegErrorLogged ''Unknown FFmpeg error'',
                 ErrorLogged (FFmpegError None)])"
    unfolding process_captioning_trace [OF dl] Let_def using mat e by simp
  have m: "\<And>p b. UploadToGcs p b \<notin> set (snd ?m)" "\<And>p. Remove p \<notin> set (snd ?m)"
    using materialize_events [of w caption_srt caption_type ?o job_id] by auto
  have f: "\<And>p b. UploadToGcs p b \<notin> set (snd (select_font w ?o))"
          "\<And>p. Remove p \<notin> set (snd (select_font w ?o))"
    using select_font_events [of w ?o] by auto
  show ?thesis
    unfolding run by (simp add: m f)
qed

theorem encoder_failure_loses_diagnostic_witness:
  "process_captioning
       (demo_world\<lparr>ffmpeg_process := (\<lambda>video out flt. Inr (1, ''Invalid data found''))\<rparr>)
       ''http://host/in.mp4'' ''hello'' ''srt'' [] ''job1''
     = (Inl (FFmpegError None),
        [DownloadFile ''http://host/in.mp4'' ''/tmp/'',
         WriteText ''/tmp/job1.srt'' ''hello'',
         FFmpegRun ''/tmp/video.mp4'' ''/tmp/job1_captioned.mp4''
           (''subtitles=/tmp/job1.srt:force_style='' @ [CHR 0x27]
             @ ''FontName=Arial,FontSize=24,PrimaryColour=&H00FFFFFF,SecondaryColour=&H00000000,''
             @ ''OutlineColour=&H00000000,BackColour=&H00000000,Bold=0,Italic=0,Underline=0,''
             @ ''StrikeOut=0,Alignment=2,MarginV=10,MarginL=10,MarginR=10,Outline=1,Shadow=0,''
             @ ''Blur=0,BorderStyle=1,Encoding=1,Spacing=0,Angle=0,UpperCase=0'' @ [CHR 0x27]),
         FFmpegErrorLogged ''Unknown FFmpeg error'',
         ErrorLogged (FFmpegError None)])"
proof -
  let ?w = "demo_world\<lparr>ffmpeg_process := (\<lambda>video out flt. Inr (1, ''Invalid data found''))\<rparr>"
  have dl: "download_file ?w ''http://host/in.mp4'' STORAGE_PATH = Inr ''/tmp/video.mp4''"
    by code_simp
  have mat: "fst (materialize_subtitle ?w ''hello'' ''srt'' (convert_array_to_collection []) ''job1'') = Inr ()"
    by code_simp
  have enc: "ffmpeg_process ?w ''/tmp/video.mp4'' (os_path_join STORAGE_PATH (''job1'' @ ''_captioned.mp4''))
               (subtitle_filter (convert_array_to_collection []) ''srt'' ''job1'')
             = Inr (1, ''Invalid data found'')"
    by (simp add: demo_world_def)
  have code: "(1 :: int) \<noteq> 0" by simp
  show ?thesis
    by (rule trans [OF conjunct1 [OF encoder_failure_loses_diagnostic [OF dl mat enc code]]]) code_simp
qed

end
